theory Spec2Isabelle
  imports Complex_Main "HOL-Library.AList"
begin

section \<open>JavaScript numbers, as far as index.js uses them\<close>

text \<open>
  A JavaScript number is \<open>NaN\<close>, an infinity or a finite value. Finite values are
  modelled as reals and the arithmetic on them is exact. The numbers of index.js are
  integral millisecond counts (time values of \<open>Date\<close> objects and \<open>Date.now()\<close>),
  their difference, and its quotient by \<open>dayInMS\<close>, which goes to \<open>Math.round\<close>
  at once; the sections on double precision below show that rounding each operation
  to a double does not change what \<open>getExpiry\<close> computes as long as the two
  timestamps are less than \<open>2^53\<close> milliseconds apart. The two zeros of IEEE
  arithmetic are one value here, \<open>Fin 0\<close>; they compare equal under \<open><=\<close> and are
  both falsy.
\<close>

datatype jsnum = NaN | NegInf | Fin real | PosInf

text \<open>ToBoolean on a number: \<open>0\<close> and \<open>NaN\<close> are falsy, everything else is truthy.\<close>

fun truthy_num :: "jsnum \<Rightarrow> bool" where
  "truthy_num NaN = False"
| "truthy_num (Fin q) = (q \<noteq> 0)"
| "truthy_num NegInf = True"
| "truthy_num PosInf = True"

text \<open>The comparison \<open>a <= b\<close> on numbers: false as soon as one side is \<open>NaN\<close>.\<close>

fun js_le :: "jsnum \<Rightarrow> jsnum \<Rightarrow> bool" where
  "js_le NaN b = False"
| "js_le a NaN = False"
| "js_le NegInf b = True"
| "js_le a PosInf = True"
| "js_le (Fin a) (Fin b) = (a \<le> b)"
| "js_le PosInf b = False"
| "js_le (Fin a) NegInf = False"

text \<open>The subtraction \<open>a - b\<close> on numbers.\<close>

fun js_sub :: "jsnum \<Rightarrow> jsnum \<Rightarrow> jsnum" where
  "js_sub NaN b = NaN"
| "js_sub a NaN = NaN"
| "js_sub PosInf PosInf = NaN"
| "js_sub NegInf NegInf = NaN"
| "js_sub PosInf b = PosInf"
| "js_sub NegInf b = NegInf"
| "js_sub (Fin a) PosInf = NegInf"
| "js_sub (Fin a) NegInf = PosInf"
| "js_sub (Fin a) (Fin b) = Fin (a - b)"

text \<open>
  The division \<open>a / c\<close> by a finite non-zero constant \<open>c\<close>; index.js divides by the
  literal \<open>dayInMS\<close> only.
\<close>

fun js_div_const :: "jsnum \<Rightarrow> real \<Rightarrow> jsnum" where
  "js_div_const NaN c = NaN"
| "js_div_const (Fin q) c = Fin (q / c)"
| "js_div_const PosInf c = (if 0 < c then PosInf else NegInf)"
| "js_div_const NegInf c = (if 0 < c then NegInf else PosInf)"

text \<open>
  \<open>Math.round\<close>: the integer closest to the argument, a tie going towards
  \<open>+\<infinity>\<close>, that is \<open>floor (x + 1/2)\<close>; \<open>NaN\<close> and the infinities are returned as
  they are.
\<close>

fun Math_round :: "jsnum \<Rightarrow> jsnum" where
  "Math_round (Fin q) = Fin (of_int \<lfloor>q + 1 / 2\<rfloor>)"
| "Math_round NaN = NaN"
| "Math_round NegInf = NegInf"
| "Math_round PosInf = PosInf"

section \<open>Dates\<close>

text \<open>
  A \<open>Date\<close> object holds a time value, an integral number of milliseconds since the
  epoch, or is an invalid date, whose time value is \<open>NaN\<close> (\<open>None\<close> here).
\<close>

type_synonym jsdate = "int option"

text \<open>ToNumber of a \<open>Date\<close>, as the operand of \<open>then - now\<close>.\<close>

definition Date_valueOf :: "jsdate \<Rightarrow> jsnum" where
  "Date_valueOf d = (case d of None \<Rightarrow> NaN | Some t \<Rightarrow> Fin (of_int t))"

text \<open>
  \<open>new Date(tv)\<close> for a number \<open>tv\<close> that is \<open>NaN\<close> (\<open>None\<close>) or integral: TimeClip
  makes the date invalid when the value is beyond 8.64e15 milliseconds.
\<close>

definition new_Date :: "int option \<Rightarrow> jsdate" where
  "new_Date tv =
     (case tv of
        None \<Rightarrow> None
      | Some t \<Rightarrow> if \<bar>t\<bar> \<le> 8640000000000000 then Some t else None)"

section \<open>The checker's configuration\<close>

text \<open>
  \<open>this.config\<close>, as the constructor leaves it: the four defaults, each overridden
  by the key of the same name in the constructor's argument when that key is there.
\<close>

record config =
  timeout :: jsnum
  defaultPort :: jsnum
  defaultAlertWindowDays :: jsnum
  userAgent :: string

text \<open>The constructor's argument: \<open>None\<close> is a key the caller left out.\<close>

record config_arg =
  arg_timeout :: "jsnum option"
  arg_defaultPort :: "jsnum option"
  arg_defaultAlertWindowDays :: "jsnum option"
  arg_userAgent :: "string option"

text \<open>
  \<open>Object.assign(defaults, config)\<close>, key by key. \<open>VERSION\<close> is the version string of
  package.json, which the constructor reads and this development takes as a parameter.
\<close>

definition assign_key :: "'a \<Rightarrow> 'a option \<Rightarrow> 'a" where
  "assign_key d v = (case v of None \<Rightarrow> d | Some x \<Rightarrow> x)"

definition constructor :: "string \<Rightarrow> config_arg \<Rightarrow> config" where
  "constructor VERSION arg =
     \<lparr> timeout = assign_key (Fin 5000) (arg_timeout arg),
       defaultPort = assign_key (Fin 443) (arg_defaultPort arg),
       defaultAlertWindowDays = assign_key (Fin 30) (arg_defaultAlertWindowDays arg),
       config.userAgent =
         assign_key (''SSL Certificate Expiry Checker '' @ VERSION) (arg_userAgent arg) \<rparr>"

section \<open>Host objects and the heap\<close>

text \<open>
  A host object with the fields index.js reads and writes, typed as the JSDoc of
  \<open>checkHosts\<close> declares them: \<open>hostname\<close> is a required string, \<open>port\<close> and
  \<open>alertWindowDays\<close> are optional numbers, \<open>userAgent\<close> is an optional string.
  \<open>None\<close> is a property that is absent, which reads as \<open>undefined\<close>.
  \<open>headers\<close> and \<open>method\<close> are the properties the checker adds.
\<close>

record host_obj =
  hostname :: string
  port :: "jsnum option"
  alertWindowDays :: "jsnum option"
  userAgent :: "string option"
  headers :: "(string \<times> string) list option"
  "method" :: "string option"

text \<open>
  Host objects are passed by reference and index.js assigns to their properties, so
  they live in a store; the \<open>hosts\<close> array of \<open>checkHosts\<close> is a list of addresses.
\<close>

type_synonym addr = nat
type_synonym heap = "addr \<Rightarrow> host_obj"

section \<open>getExpiry\<close>

record expiry_status =
  days :: jsnum
  milliseconds :: jsnum
  isExpired :: bool
  isInAlertWindow :: bool

definition dayInMS :: real where
  "dayInMS = 86400000"

text \<open>ToNumber of an optional number property: \<open>undefined\<close> converts to \<open>NaN\<close>.\<close>

definition ToNumber_opt :: "jsnum option \<Rightarrow> jsnum" where
  "ToNumber_opt v = (case v of None \<Rightarrow> NaN | Some n \<Rightarrow> n)"

text \<open>
  \<open>getExpiry(then, host)\<close>. Its first line reads the clock, \<open>let now = Date.now()\<close>;
  the first argument of the model, \<open>clock\<close>, is the value that read returns. The
  host is read through the heap \<open>H\<close>.
\<close>

definition getExpiry :: "int \<Rightarrow> heap \<Rightarrow> jsdate \<Rightarrow> addr \<Rightarrow> expiry_status" where
  "getExpiry clock H then' host =
     (let now = Fin (of_int clock);
          daysToExpiry = Math_round (js_div_const (js_sub (Date_valueOf then') now) dayInMS)
      in \<lparr> days = daysToExpiry,
           milliseconds = Math_round (js_sub (Date_valueOf then') now),
           isExpired = js_le daysToExpiry (Fin 0),
           isInAlertWindow = js_le daysToExpiry (ToNumber_opt (alertWindowDays (H host))) \<rparr>)"

section \<open>Values of the peer certificate\<close>

text \<open>
  The object \<open>res.connection.getPeerCertificate()\<close> returns comes from the platform;
  it is a JavaScript value of any shape. An object is the list of its own properties.
\<close>

datatype jsval =
    Undefined
  | Null
  | Bool bool
  | Num jsnum
  | Str string
  | Obj "(string \<times> jsval) list"

datatype js_error = TypeError

text \<open>
  The property read \<open>v.k\<close>: a TypeError on \<open>undefined\<close> and \<open>null\<close>, the property's
  value on an object that has it, \<open>undefined\<close> otherwise (index.js reads \<open>subject\<close>,
  \<open>issuer\<close>, \<open>subjectaltname\<close>, \<open>valid_from\<close>, \<open>valid_to\<close>, \<open>O\<close> and \<open>CN\<close>,
  none of which a prototype of the language defines).
\<close>

fun get_prop :: "jsval \<Rightarrow> string \<Rightarrow> js_error + jsval" where
  "get_prop Undefined k = Inl TypeError"
| "get_prop Null k = Inl TypeError"
| "get_prop (Obj ps) k = Inr (case map_of ps k of None \<Rightarrow> Undefined | Some v \<Rightarrow> v)"
| "get_prop (Bool b) k = Inr Undefined"
| "get_prop (Num n) k = Inr Undefined"
| "get_prop (Str s) k = Inr Undefined"

text \<open>Sequencing of steps that may throw: the first exception ends the evaluation.\<close>

definition bindE :: "'e + 'a \<Rightarrow> ('a \<Rightarrow> 'e + 'b) \<Rightarrow> 'e + 'b" where
  "bindE m f = (case m of Inl e \<Rightarrow> Inl e | Inr x \<Rightarrow> f x)"

section \<open>parseDate and hydrateResultObject\<close>

text \<open>
  \<open>Date.parse(v)\<close> converts its argument to a string and parses the string. On a
  primitive value the conversion cannot fail, and what the platform's parser makes of
  it is a parameter \<open>P\<close> of this development: a time value, or \<open>NaN\<close> (\<open>None\<close>) for
  what it cannot read. An object is converted through its \<open>toString\<close> and \<open>valueOf\<close>
  methods: no property value of this model is callable, so an object that has a
  \<open>toString\<close> property of its own cannot be converted, and \<open>Date.parse\<close> throws a
  TypeError; any other object inherits the method that returns \<open>[object Object]\<close>.
\<close>

fun Date_parse :: "(jsval \<Rightarrow> int option) \<Rightarrow> jsval \<Rightarrow> js_error + int option" where
  "Date_parse P (Obj ps) =
     (case map_of ps ''toString'' of
        None \<Rightarrow> Inr (P (Str ''[object Object]''))
      | Some m \<Rightarrow> Inl TypeError)"
| "Date_parse P Undefined = Inr (P Undefined)"
| "Date_parse P Null = Inr (P Null)"
| "Date_parse P (Bool b) = Inr (P (Bool b))"
| "Date_parse P (Num n) = Inr (P (Num n))"
| "Date_parse P (Str s) = Inr (P (Str s))"

text \<open>\<open>parseDate(dateString)\<close> is \<open>new Date(Date.parse(dateString))\<close>.\<close>

definition parseDate :: "(jsval \<Rightarrow> int option) \<Rightarrow> jsval \<Rightarrow> js_error + jsdate" where
  "parseDate P dateString = bindE (Date_parse P dateString) (\<lambda>tv. Inr (new_Date tv))"

text \<open>A date field that is a string, or absent.\<close>

fun string_or_absent :: "jsval \<Rightarrow> bool" where
  "string_or_absent (Str s) = True"
| "string_or_absent Undefined = True"
| "string_or_absent Null = False"
| "string_or_absent (Bool b) = False"
| "string_or_absent (Num n) = False"
| "string_or_absent (Obj ps) = False"

record certificate_details =
  subject_org :: jsval
  subject_commonName :: jsval
  subject_altName :: jsval
  issuer_org :: jsval
  issuer_commonName :: jsval

record check_result =
  host :: addr
  details :: certificate_details
  validFrom :: jsdate
  validTo :: jsdate
  expiry :: expiry_status

text \<open>
  \<open>hydrateResultObject(raw, host)\<close>: the object literal, its property values
  evaluated in the order of the source. \<open>host\<close> is stored as the reference it is.
\<close>

definition hydrateResultObject ::
  "(jsval \<Rightarrow> int option) \<Rightarrow> int \<Rightarrow> heap \<Rightarrow> jsval \<Rightarrow> addr \<Rightarrow> js_error + check_result" where
  "hydrateResultObject P clock H raw h =
     bindE (get_prop raw ''subject'') (\<lambda>s1. bindE (get_prop s1 ''O'') (\<lambda>org.
     bindE (get_prop raw ''subject'') (\<lambda>s2. bindE (get_prop s2 ''CN'') (\<lambda>cn.
     bindE (get_prop raw ''subjectaltname'') (\<lambda>alt.
     bindE (get_prop raw ''issuer'') (\<lambda>i1. bindE (get_prop i1 ''O'') (\<lambda>iorg.
     bindE (get_prop raw ''issuer'') (\<lambda>i2. bindE (get_prop i2 ''CN'') (\<lambda>icn.
     bindE (get_prop raw ''valid_from'') (\<lambda>vf. bindE (parseDate P vf) (\<lambda>dfrom.
     bindE (get_prop raw ''valid_to'') (\<lambda>vt. bindE (parseDate P vt) (\<lambda>dto.
     bindE (get_prop raw ''valid_to'') (\<lambda>vt'. bindE (parseDate P vt') (\<lambda>dto'.
       Inr \<lparr> host = h,
             details = \<lparr> subject_org = org, subject_commonName = cn,
                         subject_altName = alt,
                         issuer_org = iorg, issuer_commonName = icn \<rparr>,
             validFrom = dfrom,
             validTo = dto,
             expiry = getExpiry clock H dto' h \<rparr>)))))))))))))))"

section \<open>buildHostConfig\<close>

text \<open>
  \<open>a || b\<close> where \<open>a\<close> is an optional number, respectively an optional string,
  property: \<open>a\<close> when it is truthy, \<open>b\<close> otherwise. \<open>undefined\<close>, \<open>0\<close>, \<open>NaN\<close>
  and the empty string are falsy.
\<close>

definition or_num :: "jsnum option \<Rightarrow> jsnum \<Rightarrow> jsnum" where
  "or_num a b = (case a of None \<Rightarrow> b | Some n \<Rightarrow> if truthy_num n then n else b)"

definition or_str :: "string option \<Rightarrow> string \<Rightarrow> string" where
  "or_str a b = (case a of None \<Rightarrow> b | Some s \<Rightarrow> if s \<noteq> [] then s else b)"

text \<open>
  The callback of \<open>hosts.map\<close> in \<open>buildHostConfig\<close>: four assignments to the
  properties of the object at \<open>h\<close>, and the same reference returned.
\<close>

definition resolve_host :: "config \<Rightarrow> addr \<Rightarrow> heap \<Rightarrow> addr \<times> heap" where
  "resolve_host c h H =
     (let H1 = H(h := (H h)\<lparr> port := Some (or_num (port (H h)) (defaultPort c)) \<rparr>);
          H2 = H1(h := (H1 h)\<lparr> alertWindowDays :=
                 Some (or_num (alertWindowDays (H1 h)) (defaultAlertWindowDays c)) \<rparr>);
          H3 = H2(h := (H2 h)\<lparr> headers := Some [] \<rparr>);
          H4 = H3(h := (H3 h)\<lparr> headers :=
                 map_option
                   (AList.update ''User-Agent''
                      (or_str (host_obj.userAgent (H3 h)) (config.userAgent c)))
                   (headers (H3 h)) \<rparr>)
      in (h, H4))"

text \<open>\<open>hosts.map(callback)\<close>: a new array, the callback run on each element in order.\<close>

fun buildHostConfig :: "config \<Rightarrow> addr list \<Rightarrow> heap \<Rightarrow> addr list \<times> heap" where
  "buildHostConfig c [] H = ([], H)"
| "buildHostConfig c (h # hs) H =
     (let (r, H1) = resolve_host c h H;
          (rs, H2) = buildHostConfig c hs H1
      in (r # rs, H2))"

section \<open>checkHost and checkHosts\<close>

text \<open>
  A promise is pending, fulfilled with a value or rejected with a reason; once
  settled it never changes.
\<close>

datatype 'a promise = Pending | Fulfilled 'a | Rejected jsval

fun is_fulfilled :: "'a promise \<Rightarrow> bool" where
  "is_fulfilled (Fulfilled v) = True"
| "is_fulfilled Pending = False"
| "is_fulfilled (Rejected e) = False"

fun is_rejected :: "'a promise \<Rightarrow> bool" where
  "is_rejected (Rejected e) = True"
| "is_rejected Pending = False"
| "is_rejected (Fulfilled v) = False"

fun fulfilled_values :: "'a promise list \<Rightarrow> 'a list" where
  "fulfilled_values [] = []"
| "fulfilled_values (Fulfilled v # ps) = v # fulfilled_values ps"
| "fulfilled_values (Pending # ps) = fulfilled_values ps"
| "fulfilled_values (Rejected e # ps) = fulfilled_values ps"

text \<open>
  The synchronous part of \<open>checkHost(host)\<close>: the promise's executor runs at once,
  assigns \<open>host.method\<close> and sends the request. The promise it returns is pending.
\<close>

definition checkHost_start :: "addr \<Rightarrow> heap \<Rightarrow> heap" where
  "checkHost_start h H = H(h := (H h)\<lparr> method := Some ''GET'' \<rparr>)"

fun start_all :: "addr list \<Rightarrow> heap \<Rightarrow> heap" where
  "start_all [] H = H"
| "start_all (h # hs) H = start_all hs (checkHost_start h H)"

text \<open>
  What the platform does to the requests afterwards is a sequence of events, in the
  order in which the event loop delivers them:
  \<^item> \<open>Response i raw clock\<close>: the response callback of request \<open>i\<close> (the request of
    \<open>hosts[i]\<close>) runs, \<open>getPeerCertificate()\<close> returns \<open>raw\<close>, and \<open>Date.now()\<close>
    returns \<open>clock\<close> during the callback;
  \<^item> \<open>Error i e\<close>: request \<open>i\<close> emits \<open>error\<close> with the value \<open>e\<close>, and the handler
    \<open>reject\<close> runs.
  An error the platform raises while \<open>checkHost\<close> is still running is an \<open>Error\<close>
  event at the front of the sequence.
\<close>

datatype event = Response nat jsval int | Error nat jsval

text \<open>
  The state of a call of \<open>checkHosts\<close>: the promises of the hosts, the promise
  \<open>Promise.all\<close> returned, and the exception that escaped a callback, if one did.
\<close>

record run_state =
  promises :: "check_result promise list"
  joined :: "check_result list promise"
  uncaught :: "js_error option"

text \<open>
  \<open>Promise.all\<close>: its promise is rejected with the reason of the first input promise
  that is rejected, and fulfilled with the values, in the order of the input
  promises, when the last of them is fulfilled.
\<close>

definition on_reject :: "nat \<Rightarrow> jsval \<Rightarrow> run_state \<Rightarrow> run_state" where
  "on_reject i e s =
     (if promises s ! i = Pending
      then s\<lparr> promises := (promises s)[i := Rejected e],
              joined := (if joined s = Pending then Rejected e else joined s) \<rparr>
      else s)"

definition on_resolve :: "nat \<Rightarrow> check_result \<Rightarrow> run_state \<Rightarrow> run_state" where
  "on_resolve i r s =
     (if promises s ! i = Pending
      then (let ps = (promises s)[i := Fulfilled r]
            in s\<lparr> promises := ps,
                    joined := (if joined s = Pending \<and> list_all is_fulfilled ps
                               then Fulfilled (fulfilled_values ps) else joined s) \<rparr>)
      else s)"

text \<open>
  One event. The response callback is \<open>resolve(_hydrate(raw, host))\<close>: the result is
  hydrated first, and an exception of \<open>hydrateResultObject\<close> leaves the callback
  uncaught, which ends the process. An event for a request that does not exist does
  not happen.
\<close>

definition step ::
  "(jsval \<Rightarrow> int option) \<Rightarrow> heap \<Rightarrow> addr list \<Rightarrow> run_state \<Rightarrow> event \<Rightarrow> run_state" where
  "step P H hosts s ev =
     (if uncaught s \<noteq> None then s
      else case ev of
        Error i e \<Rightarrow> if i < length hosts then on_reject i e s else s
      | Response i raw clock \<Rightarrow>
          if i < length hosts
          then (case hydrateResultObject P clock H raw (hosts ! i) of
                  Inl err \<Rightarrow> s\<lparr> uncaught := Some err \<rparr>
                | Inr r \<Rightarrow> on_resolve i r s)
          else s)"

text \<open>
  \<open>checkHosts(hosts)\<close>: the hosts resolved, the requests started, the promise of
  \<open>Promise.all\<close> created (of no promises, it is fulfilled with the empty list), and
  then the events of the platform. The result is the final heap and state.
\<close>

definition initial_state :: "nat \<Rightarrow> run_state" where
  "initial_state n =
     \<lparr> promises = replicate n Pending,
       joined = (if n = 0 then Fulfilled [] else Pending),
       uncaught = None \<rparr>"

definition checkHosts ::
  "(jsval \<Rightarrow> int option) \<Rightarrow> config \<Rightarrow> addr list \<Rightarrow> heap \<Rightarrow> event list \<Rightarrow> heap \<times> run_state" where
  "checkHosts P c hosts H evs =
     (let (resolved, H1) = buildHostConfig c hosts H;
          H2 = start_all resolved H1
      in (H2, foldl (step P H2 resolved) (initial_state (length resolved)) evs))"

section \<open>Double precision\<close>

text \<open>
  Rounding to the nearest integer, a tie going to the even one, and rounding of a
  real to the nearest number with a significand of 53 bits (a double, away from
  overflow and from the subnormal numbers): the result of each arithmetic operation
  of JavaScript is the exact result rounded this way.
\<close>

definition rne :: "real \<Rightarrow> int" where
  "rne y =
     (if y - of_int \<lfloor>y\<rfloor> < 1 / 2 then \<lfloor>y\<rfloor>
      else if 1 / 2 < y - of_int \<lfloor>y\<rfloor> then \<lfloor>y\<rfloor> + 1
      else if even \<lfloor>y\<rfloor> then \<lfloor>y\<rfloor> else \<lfloor>y\<rfloor> + 1)"

definition to_double :: "real \<Rightarrow> real" where
  "to_double x =
     (if x = 0 then 0
      else of_int (rne (x / 2 powr (of_int \<lfloor>log 2 \<bar>x\<bar>\<rfloor> - 52)))
             * 2 powr (of_int \<lfloor>log 2 \<bar>x\<bar>\<rfloor> - 52))"

section \<open>Invariants and sample data used in the proofs\<close>

text \<open>
  What the promise of \<open>Promise.all\<close> says about the promises of the hosts: pending,
  none is rejected and one is not fulfilled yet; fulfilled, all are and its value is
  theirs in order; rejected, one of them is.
\<close>

definition joined_inv :: "run_state \<Rightarrow> bool" where
  "joined_inv s =
     (case joined s of
        Pending \<Rightarrow> \<not> list_ex is_rejected (promises s) \<and> \<not> list_all is_fulfilled (promises s)
      | Fulfilled rs \<Rightarrow> list_all is_fulfilled (promises s) \<and> rs = fulfilled_values (promises s)
      | Rejected e \<Rightarrow> list_ex is_rejected (promises s))"

definition state_inv :: "addr list \<Rightarrow> run_state \<Rightarrow> bool" where
  "state_inv hosts s = (length (promises s) = length hosts \<and> joined_inv s)"

text \<open>The object the callback of \<open>buildHostConfig\<close> leaves behind, in one update.\<close>

definition resolved :: "config \<Rightarrow> host_obj \<Rightarrow> host_obj" where
  "resolved c ob =
     ob\<lparr> port := Some (or_num (port ob) (defaultPort c)),
         alertWindowDays := Some (or_num (alertWindowDays ob) (defaultAlertWindowDays c)),
         headers := Some [(''User-Agent'',
                           or_str (host_obj.userAgent ob) (config.userAgent c))] \<rparr>"

text \<open>
  The hosts of the test \<open>should allow configs to be overridden per host\<close> of
  test/index.spec.js: the first at address 0, the second at every other address.
\<close>

definition test_heap :: heap where
  "test_heap a =
     (if a = 0
      then \<lparr> hostname = ''www.google.com'', port = Some (Fin 1234),
             alertWindowDays = Some (Fin 5), userAgent = Some ''Google user agent'',
             headers = None, method = None \<rparr>
      else \<lparr> hostname = ''www.facebook.com'', port = None,
             alertWindowDays = None, userAgent = None,
             headers = None, method = None \<rparr>)"

text \<open>
  The certificate of test/helpers/https.stub.js, with the two date strings given,
  and a parser that reads two date strings of that format and nothing else.
\<close>

definition stub_certificate :: "string \<Rightarrow> string \<Rightarrow> jsval" where
  "stub_certificate valid_from valid_to =
     Obj [(''subjectaltname'', Str ''Alt name''),
          (''subject'', Obj [(''O'', Str ''Org name''), (''CN'', Str ''Common name'')]),
          (''issuer'', Obj [(''O'', Str ''Issuer org name''),
                             (''CN'', Str ''Issuer common name'')]),
          (''valid_to'', Str valid_to),
          (''valid_from'', Str valid_from)]"

definition stub_Date_parse :: "jsval \<Rightarrow> int option" where
  "stub_Date_parse v =
     (if v = Str ''Jan 1 00:00:00 2020 GMT'' then Some 1577836800000
      else if v = Str ''Mar 1 00:00:00 2020 GMT'' then Some 1583020800000
      else None)"

text \<open>
  The checker of the tests, \<open>new CertExpiryCheck()\<close>, for version 0.1.0 of the
  package; the stub's certificate, valid from 1 January to 1 March 2020; and the
  result object a check of it gives at midnight of 1 January 2020 for a host whose
  alert window is below 60 days.
\<close>

definition test_config :: config where
  "test_config =
     constructor ''0.1.0''
       \<lparr> arg_timeout = None, arg_defaultPort = None,
         arg_defaultAlertWindowDays = None, arg_userAgent = None \<rparr>"

definition test_certificate :: jsval where
  "test_certificate = stub_certificate ''Jan 1 00:00:00 2020 GMT'' ''Mar 1 00:00:00 2020 GMT''"

definition test_result :: "addr \<Rightarrow> check_result" where
  "test_result h =
     \<lparr> host = h,
       details = \<lparr> subject_org = Str ''Org name'', subject_commonName = Str ''Common name'',
                   subject_altName = Str ''Alt name'',
                   issuer_org = Str ''Issuer org name'',
                   issuer_commonName = Str ''Issuer common name'' \<rparr>,
       validFrom = Some 1577836800000, validTo = Some 1583020800000,
       expiry = \<lparr> days = Fin 60, milliseconds = Fin 5184000000,
                  isExpired = False, isInAlertWindow = False \<rparr> \<rparr>"

section \<open>Adequacy of exact arithmetic\<close>

lemma rne_err: "\<bar>of_int (rne y) - y\<bar> \<le> 1 / 2"
  unfolding rne_def by (auto simp: abs_le_iff)

lemma rne_of_int: "rne (of_int m) = m"
  by (simp add: rne_def)

lemma to_double_err:
  fixes x :: real
  assumes "x \<noteq> 0"
  shows "\<bar>to_double x - x\<bar> \<le> 2 powr (of_int \<lfloor>log 2 \<bar>x\<bar>\<rfloor> - 53)"
proof -
  define u :: real where "u = 2 powr (of_int \<lfloor>log 2 \<bar>x\<bar>\<rfloor> - 52)"
  have u: "0 < u" by (simp add: u_def)
  have "to_double x - x = (of_int (rne (x / u)) - x / u) * u"
    using assms u by (simp add: to_double_def u_def algebra_simps)
  then have "\<bar>to_double x - x\<bar> = \<bar>of_int (rne (x / u)) - x / u\<bar> * u"
    using u by (simp add: abs_mult)
  also have "\<dots> \<le> (1 / 2) * u"
    using rne_err[of "x / u"] u by (intro mult_right_mono) simp_all
  also have "\<dots> = 2 powr (of_int \<lfloor>log 2 \<bar>x\<bar>\<rfloor> - 53)"
    by (simp add: u_def powr_diff)
  finally show ?thesis .
qed

lemma exponent_bound:
  fixes x :: real
  assumes "x \<noteq> 0" "\<bar>x\<bar> < 2 ^ n"
  shows "\<lfloor>log 2 \<bar>x\<bar>\<rfloor> \<le> int n - 1"
proof -
  have "log 2 \<bar>x\<bar> < log 2 (2 ^ n)"
    using assms by (subst log_less_cancel_iff) simp_all
  then have "log 2 \<bar>x\<bar> < of_int (int n)" by (simp add: log_nat_power)
  then have "\<lfloor>log 2 \<bar>x\<bar>\<rfloor> < int n" by (simp add: floor_less_iff)
  then show ?thesis by simp
qed


lemma to_double_exact:
  fixes x :: real
  assumes "x \<noteq> 0" "x / 2 powr (of_int \<lfloor>log 2 \<bar>x\<bar>\<rfloor> - 52) = of_int z"
  shows "to_double x = x"
proof -
  have "of_int z * 2 powr (of_int \<lfloor>log 2 \<bar>x\<bar>\<rfloor> - 52) = x"
    using assms(2) by (simp add: field_simps)
  then show ?thesis using assms by (simp add: to_double_def rne_of_int)
qed

lemma powr_int_nonneg: "0 \<le> n \<Longrightarrow> (2::real) powr of_int n = of_int (2 ^ nat n)"
  using powr_realpow[of "2::real" "nat n"] by simp

lemma scaled_integer:
  fixes x :: real and e j :: int
  assumes "e \<le> j" "x * 2 powr (52 - of_int j) = of_int m"
  shows "\<exists>z. x / 2 powr (of_int e - 52) = of_int z"
proof -
  have "x / 2 powr (of_int e - 52) = x * 2 powr (52 - of_int e)"
    by (simp add: powr_diff field_simps)
  also have "(2::real) powr (52 - of_int e) = 2 powr (52 - of_int j) * 2 powr of_int (j - e)"
    by (simp add: powr_add[symmetric])
  also have "x * \<dots> = of_int m * 2 powr of_int (j - e)"
    using assms(2) by (simp add: mult.assoc[symmetric])
  also have "\<dots> = of_int (m * 2 ^ nat (j - e))"
    using assms(1) powr_int_nonneg[of "j - e"] by simp
  finally show ?thesis by blast
qed

lemma to_double_half_integer:
  fixes m :: int
  assumes "m \<noteq> 0" "\<bar>of_int m / 2 :: real\<bar> < 2 ^ 27"
  shows "to_double (of_int m / 2) = of_int m / 2"
proof -
  let ?x = "of_int m / 2 :: real"
  let ?e = "\<lfloor>log 2 \<bar>?x\<bar>\<rfloor>"
  have x0: "?x \<noteq> 0" using assms(1) by simp
  have e: "?e \<le> 51" using exponent_bound[OF x0 assms(2)] by simp
  have "?x * 2 powr (52 - of_int 51) = of_int m" by simp
  from scaled_integer[OF e this]
  obtain z where "?x / 2 powr (of_int ?e - 52) = of_int z" by blast
  then show ?thesis by (rule to_double_exact[OF x0])
qed

lemma to_double_close:
  fixes x :: real
  assumes "x \<noteq> 0" "\<bar>x\<bar> < 2 ^ 27"
  shows "\<bar>to_double x - x\<bar> \<le> 1 / 2 ^ 27"
proof -
  have "\<lfloor>log 2 \<bar>x\<bar>\<rfloor> \<le> 26" using exponent_bound[OF assms] by simp
  then have "(2::real) powr (of_int \<lfloor>log 2 \<bar>x\<bar>\<rfloor> - 53) \<le> 2 powr (of_int (- 27))"
    by (intro powr_mono) simp_all
  also have "\<dots> = 1 / 2 ^ 27"
    using powr_int_nonneg[of 27] by (simp add: powr_minus field_simps)
  finally show ?thesis using to_double_err[OF assms(1)] by linarith
qed

lemma double_quotient_round:
  fixes d :: int
  assumes "\<bar>d\<bar> < 2 ^ 53"
  shows "\<lfloor>to_double (of_int d / 86400000) + 1 / 2\<rfloor> = \<lfloor>(of_int d / 86400000 :: real) + 1 / 2\<rfloor>"
proof (cases "d = 0")
  case True
  then show ?thesis by (simp add: to_double_def)
next
  case False
  define q :: real where "q = of_int d / 86400000"
  define k where "k = \<lfloor>q + 1 / 2\<rfloor>"
  have q0: "q \<noteq> 0" using False by (simp add: q_def)
  have "\<bar>of_int d :: real\<bar> < 2 ^ 53" using assms by (metis of_int_abs of_int_less_iff of_int_numeral of_int_power)
  then have qb: "\<bar>q\<bar> < 2 ^ 27" by (simp add: q_def)
  have close: "\<bar>to_double q - q\<bar> \<le> 1 / 2 ^ 27" by (rule to_double_close[OF q0 qb])
  have lo: "of_int k \<le> q + 1 / 2" and hi: "q + 1 / 2 < of_int k + 1"
    unfolding k_def by linarith+
  have lo_int: "(2 * k - 1) * 43200000 \<le> d"
  proof -
    have "of_int ((2 * k - 1) * 43200000) \<le> (of_int d :: real)"
      using lo by (simp add: q_def field_simps)
    then show ?thesis by (simp only: of_int_le_iff)
  qed
  have hi_int: "d < (2 * k + 1) * 43200000"
  proof -
    have "(of_int d :: real) < of_int ((2 * k + 1) * 43200000)"
      using hi by (simp add: q_def field_simps)
    then show ?thesis by (simp only: of_int_less_iff)
  qed
  have upper: "to_double q + 1 / 2 < of_int k + 1"
  proof -
    have "d + 1 \<le> (2 * k + 1) * 43200000" using hi_int by simp
    then have "(of_int (d + 1) :: real) \<le> of_int ((2 * k + 1) * 43200000)"
      by (simp only: of_int_le_iff)
    then have "q + 1 / 86400000 \<le> of_int k + 1 / 2" by (simp add: q_def field_simps)
    moreover have "to_double q - q \<le> 1 / 2 ^ 27" using close by linarith
    moreover have "(1::real) / 2 ^ 27 < 1 / 86400000" by simp
    ultimately show ?thesis by linarith
  qed
  have lower: "of_int k \<le> to_double q + 1 / 2"
  proof (cases "d = (2 * k - 1) * 43200000")
    case True
    then have qh: "q = of_int (2 * k - 1) / 2" by (simp add: q_def)
    have "2 * k - 1 \<noteq> 0" by presburger
    then have "to_double q = q"
      using to_double_half_integer[of "2 * k - 1"] qb unfolding qh by blast
    then show ?thesis using lo by simp
  next
    case False
    then have "(2 * k - 1) * 43200000 + 1 \<le> d" using lo_int by simp
    then have "(of_int ((2 * k - 1) * 43200000 + 1) :: real) \<le> of_int d"
      by (simp only: of_int_le_iff)
    then have "of_int k - 1 / 2 + 1 / 86400000 \<le> q" by (simp add: q_def field_simps)
    moreover have "q - to_double q \<le> 1 / 2 ^ 27" using close by linarith
    moreover have "(1::real) / 2 ^ 27 < 1 / 86400000" by simp
    ultimately show ?thesis by linarith
  qed
  have "\<lfloor>to_double q + 1 / 2\<rfloor> = k" using lower upper by (rule floor_unique)
  then show ?thesis by (simp add: k_def q_def)
qed

lemma to_double_integer:
  fixes d :: int
  assumes "\<bar>d\<bar> < 2 ^ 53"
  shows "to_double (of_int d) = of_int d"
proof (cases "d = 0")
  case True
  then show ?thesis by (simp add: to_double_def)
next
  case False
  let ?x = "of_int d :: real"
  let ?e = "\<lfloor>log 2 \<bar>?x\<bar>\<rfloor>"
  have x0: "?x \<noteq> 0" using False by simp
  have "\<bar>?x\<bar> < 2 ^ 53"
    using assms by (metis of_int_abs of_int_less_iff of_int_numeral of_int_power)
  then have e: "?e \<le> 52" using exponent_bound[OF x0, of 53] by simp
  have "?x * 2 powr (52 - of_int 52) = of_int d" by simp
  from scaled_integer[OF e this]
  obtain z where "?x / 2 powr (of_int ?e - 52) = of_int z" by blast
  then show ?thesis by (rule to_double_exact[OF x0])
qed

text \<open>
  The days \<open>getExpiry\<close> computes with exact arithmetic are the days it computes when
  the difference and the quotient are each rounded to a double, for two timestamps
  less than \<open>2^53\<close> milliseconds (some 285000 years) apart.
\<close>

lemma getExpiry_days_double:
  assumes "\<bar>vt - now\<bar> < 2 ^ 53"
  shows "days (getExpiry now H (Some vt) h) =
           Fin (of_int \<lfloor>to_double (to_double (of_int vt - of_int now) / 86400000) + 1 / 2\<rfloor>)"
proof -
  have "to_double (of_int vt - of_int now) = of_int (vt - now)"
    using to_double_integer[OF assms] by simp
  then show ?thesis
    using double_quotient_round[OF assms]
    by (simp add: getExpiry_def Date_valueOf_def dayInMS_def Let_def)
qed

section \<open>The expiry computation\<close>

lemma js_le_trans: "js_le a b \<Longrightarrow> js_le b c \<Longrightarrow> js_le a c"
  by (cases a; cases b; cases c) simp_all

lemma getExpiry_valid:
  "getExpiry n H (Some t) a =
     \<lparr> days = Fin (of_int (round (of_int (t - n) / (86400000::real)))),
       milliseconds = Fin (of_int (t - n)),
       isExpired = (round (of_int (t - n) / (86400000::real)) \<le> 0),
       isInAlertWindow =
         js_le (Fin (of_int (round (of_int (t - n) / (86400000::real)))))
           (ToNumber_opt (alertWindowDays (H a))) \<rparr>"
  by (simp add: getExpiry_def Date_valueOf_def dayInMS_def round_def Let_def)

lemma getExpiry_invalid:
  "getExpiry n H None a =
     \<lparr> days = NaN, milliseconds = NaN, isExpired = False, isInAlertWindow = False \<rparr>"
  by (simp add: getExpiry_def Date_valueOf_def Let_def)

text \<open>
  C1. For every \<open>validTo\<close> timestamp \<open>vt\<close>, every reading \<open>now\<close> of the clock and every
  integer \<open>alertWindowDays\<close> of the host, \<open>getExpiry\<close> returns
  \<open>days = round ((validTo - now) / 86400000)\<close>, \<open>milliseconds = round (validTo - now)\<close>,
  \<open>isExpired = (days \<le> 0)\<close> and \<open>isInAlertWindow = (days \<le> alertWindowDays)\<close>, where
  \<open>round\<close> is the nearest integer, a tie going up, as \<open>Math.round\<close> does. In
  particular \<open>validTo = now + 60 days\<close> gives \<open>days = 60\<close>, not expired, and in the
  alert window exactly when \<open>60 \<le> alertWindowDays\<close>; \<open>validTo = now - 5 days\<close> gives
  \<open>days = -5\<close> and expired.
\<close>

theorem getExpiry_formula:
  assumes "alertWindowDays (H h) = Some (Fin (of_int w))"
  shows "getExpiry now H (Some vt) h =
     \<lparr> days = Fin (of_int (round (of_int (vt - now) / (86400000::real)))),
       milliseconds = Fin (of_int (round (of_int (vt - now) :: real))),
       isExpired = (round (of_int (vt - now) / (86400000::real)) \<le> 0),
       isInAlertWindow = (round (of_int (vt - now) / (86400000::real)) \<le> w) \<rparr>
   \<and> days (getExpiry now H (Some (now + 60 * 86400000)) h) = Fin 60
   \<and> isExpired (getExpiry now H (Some (now + 60 * 86400000)) h) = False
   \<and> isInAlertWindow (getExpiry now H (Some (now + 60 * 86400000)) h) = (60 \<le> w)
   \<and> days (getExpiry now H (Some (now - 5 * 86400000)) h) = Fin (- 5)
   \<and> isExpired (getExpiry now H (Some (now - 5 * 86400000)) h) = True"
  using assms
  by (simp add: getExpiry_valid ToNumber_opt_def round_def)

theorem getExpiry_formula_witness:
  "alertWindowDays (test_heap 0) = Some (Fin (of_int 5))
   \<and> getExpiry 1577836800000 test_heap (Some 1583020800000) 0 =
       \<lparr> days = Fin 60, milliseconds = Fin 5184000000,
         isExpired = False, isInAlertWindow = False \<rparr>"
  using getExpiry_formula [of test_heap 0 5 1577836800000 1583020800000]
  by (simp add: test_heap_def round_def)

text \<open>
  C7. Whenever the host's \<open>alertWindowDays\<close> is a non-negative number, an expiry
  status that is expired is in the alert window as well, for every date (valid or
  not) and every reading of the clock.
\<close>

theorem expired_in_alert_window:
  assumes "alertWindowDays (H h) = Some w" and "js_le (Fin 0) w"
  shows "isExpired (getExpiry now H d h) \<longrightarrow> isInAlertWindow (getExpiry now H d h)"
  using assms
  by (auto simp: getExpiry_def Let_def ToNumber_opt_def intro: js_le_trans)

theorem expired_in_alert_window_witness:
  "alertWindowDays (test_heap 0) = Some (Fin 5) \<and> js_le (Fin 0) (Fin 5)
   \<and> isExpired (getExpiry 1583020800000 test_heap (Some 1577836800000) 0)
   \<and> isInAlertWindow (getExpiry 1583020800000 test_heap (Some 1577836800000) 0)"
  using expired_in_alert_window [of test_heap 0 "Fin 5" 1583020800000 "Some 1577836800000"]
  by (simp add: test_heap_def getExpiry_valid round_def)

text \<open>
  C2, as the code has it. \<open>getExpiry(then, host)\<close> takes no time argument: it reads
  the clock with \<open>Date.now()\<close>. It has no side effect, and its result is a function
  of \<open>then\<close>, of the host's \<open>alertWindowDays\<close> and of the value the clock returned:
  two runs with the same date and the same \<open>alertWindowDays\<close> that read the same
  clock value return the same status, whatever else the two heaps hold.
\<close>

theorem getExpiry_same_clock:
  assumes "alertWindowDays (H h) = alertWindowDays (H' h')"
  shows "getExpiry clock H d h = getExpiry clock H' d h'"
  using assms by (simp add: getExpiry_def)

theorem getExpiry_same_clock_witness:
  "alertWindowDays (test_heap 1) = alertWindowDays (test_heap 2)
   \<and> getExpiry 1577836800000 test_heap (Some 1583020800000) 1 =
       getExpiry 1577836800000 test_heap (Some 1583020800000) 2"
  using getExpiry_same_clock [of test_heap 1 test_heap 2 1577836800000 "Some 1583020800000"]
  by (simp add: test_heap_def)

text \<open>
  Two runs on the same date and the same host that read the clock one day apart
  return different statuses.
\<close>

theorem getExpiry_clock_counterexample:
  "getExpiry 1577836800000 test_heap (Some 1583020800000) 0 \<noteq>
   getExpiry 1577923200000 test_heap (Some 1583020800000) 0"
  by (simp add: getExpiry_valid round_def)

section \<open>Resolution of the hosts and the heap\<close>

lemma resolve_host_eq: "resolve_host c h H = (h, H(h := resolved c (H h)))"
  by (simp add: resolve_host_def resolved_def Let_def)

lemma or_num_idem: "or_num (Some (or_num a b)) b = or_num a b"
  by (simp add: or_num_def split: option.splits)

lemma resolved_idem: "resolved c (resolved c ob) = resolved c ob"
  by (simp add: resolved_def or_num_idem)

lemma buildHostConfig_eq:
  "buildHostConfig c hs H = (hs, \<lambda>a. if a \<in> set hs then resolved c (H a) else H a)"
proof (induction hs arbitrary: H)
  case Nil
  then show ?case by simp
next
  case (Cons h hs)
  show ?case
    by (simp add: resolve_host_eq Cons.IH) (auto simp: fun_eq_iff resolved_idem)
qed

lemma start_all_eq:
  "start_all hs H = (\<lambda>a. if a \<in> set hs then (H a)\<lparr> method := Some ''GET'' \<rparr> else H a)"
proof (induction hs arbitrary: H)
  case Nil
  then show ?case by simp
next
  case (Cons h hs)
  show ?case
    by (simp add: Cons.IH checkHost_start_def) (auto simp: fun_eq_iff)
qed

lemma checkHosts_heap:
  "fst (checkHosts P c hosts H evs) =
     (\<lambda>a. if a \<in> set hosts then (resolved c (H a))\<lparr> method := Some ''GET'' \<rparr> else H a)"
  by (auto simp: checkHosts_def buildHostConfig_eq start_all_eq Let_def fun_eq_iff)

lemma checkHosts_state:
  "snd (checkHosts P c hosts H evs) =
     foldl (step P (fst (checkHosts P c hosts H evs)) hosts) (initial_state (length hosts)) evs"
  by (simp add: checkHosts_def buildHostConfig_eq Let_def)

text \<open>
  C4. For every configuration and every host of the list, \<open>buildHostConfig\<close> leaves
  in \<open>port\<close> the host's own port when that is present and truthy and the
  configuration's \<open>defaultPort\<close> otherwise, and likewise in \<open>alertWindowDays\<close> and in
  the \<open>User-Agent\<close> header; a port (or alert window) that is \<open>0\<close>, or a user agent
  that is the empty string, is replaced by the default as an absent one is.
\<close>

theorem buildHostConfig_overrides:
  assumes "h \<in> set hosts"
  shows "port (snd (buildHostConfig c hosts H) h) =
           (if \<exists>p. port (H h) = Some p \<and> truthy_num p then port (H h)
            else Some (defaultPort c))
       \<and> alertWindowDays (snd (buildHostConfig c hosts H) h) =
           (if \<exists>w. alertWindowDays (H h) = Some w \<and> truthy_num w
            then alertWindowDays (H h)
            else Some (defaultAlertWindowDays c))
       \<and> (\<exists>hd. headers (snd (buildHostConfig c hosts H) h) = Some hd
              \<and> map_of hd ''User-Agent'' =
                  (if \<exists>u. host_obj.userAgent (H h) = Some u \<and> u \<noteq> []
                   then host_obj.userAgent (H h)
                   else Some (config.userAgent c)))
       \<and> (port (H h) = Some (Fin 0) \<longrightarrow>
            port (snd (buildHostConfig c hosts H) h) = Some (defaultPort c))
       \<and> (alertWindowDays (H h) = Some (Fin 0) \<longrightarrow>
            alertWindowDays (snd (buildHostConfig c hosts H) h) =
              Some (defaultAlertWindowDays c))
       \<and> (host_obj.userAgent (H h) = Some [] \<longrightarrow>
            headers (snd (buildHostConfig c hosts H) h) =
              Some [(''User-Agent'', config.userAgent c)])"
  using assms
  by (auto simp: buildHostConfig_eq resolved_def or_num_def or_str_def split: option.splits)

theorem buildHostConfig_overrides_witness:
  "(0::nat) \<in> set [0, 1]
   \<and> port (snd (buildHostConfig (constructor ''0.1.0'' \<lparr> arg_timeout = None,
          arg_defaultPort = None, arg_defaultAlertWindowDays = None,
          arg_userAgent = None \<rparr>) [0, 1] test_heap) 0) = Some (Fin 1234)
   \<and> port (snd (buildHostConfig (constructor ''0.1.0'' \<lparr> arg_timeout = None,
          arg_defaultPort = None, arg_defaultAlertWindowDays = None,
          arg_userAgent = None \<rparr>) [0, 1] test_heap) 1) = Some (Fin 443)"
  using buildHostConfig_overrides [of 0 "[0, 1]" "constructor ''0.1.0'' \<lparr> arg_timeout = None,
          arg_defaultPort = None, arg_defaultAlertWindowDays = None,
          arg_userAgent = None \<rparr>" test_heap]
        buildHostConfig_overrides [of 1 "[0, 1]" "constructor ''0.1.0'' \<lparr> arg_timeout = None,
          arg_defaultPort = None, arg_defaultAlertWindowDays = None,
          arg_userAgent = None \<rparr>" test_heap]
  by (simp add: test_heap_def constructor_def assign_key_def)

section \<open>The promises\<close>

lemma initial_state_inv: "state_inv hosts (initial_state (length hosts))"
  by (cases hosts) (simp_all add: state_inv_def joined_inv_def initial_state_def list_ex_iff)

lemma not_pending_cases: "p \<noteq> Pending \<Longrightarrow> is_fulfilled p \<or> is_rejected p"
  by (cases p) simp_all

lemma on_reject_inv:
  assumes "state_inv hosts s" "i < length hosts"
  shows "state_inv hosts (on_reject i e s)"
proof (cases "promises s ! i = Pending")
  case False
  then show ?thesis using assms by (simp add: on_reject_def)
next
  case True
  have len: "length (promises s) = length hosts" using assms by (simp add: state_inv_def)
  have rej: "list_ex is_rejected ((promises s)[i := Rejected e])"
    unfolding list_ex_length using assms(2) len by (auto intro!: exI[of _ i])
  have notall: "\<not> list_all is_fulfilled (promises s)"
    unfolding list_all_length using True assms(2) len by (auto intro!: exI[of _ i])
  show ?thesis
  proof (cases "joined s")
    case Pending
    then show ?thesis using True len rej
      by (simp add: on_reject_def state_inv_def joined_inv_def)
  next
    case (Fulfilled rs)
    then show ?thesis using assms(1) notall by (simp add: state_inv_def joined_inv_def)
  next
    case (Rejected e')
    then show ?thesis using True len rej
      by (simp add: on_reject_def state_inv_def joined_inv_def)
  qed
qed

lemma on_resolve_inv:
  assumes "state_inv hosts s" "i < length hosts"
  shows "state_inv hosts (on_resolve i r s)"
proof (cases "promises s ! i = Pending")
  case False
  then show ?thesis using assms by (simp add: on_resolve_def)
next
  case True
  have len: "length (promises s) = length hosts" using assms by (simp add: state_inv_def)
  have notall: "\<not> list_all is_fulfilled (promises s)"
    unfolding list_all_length using True assms(2) len by (auto intro!: exI[of _ i])
  have rej_iff: "list_ex is_rejected ((promises s)[i := Fulfilled r]) = list_ex is_rejected (promises s)"
  proof -
    have "is_rejected ((promises s)[i := Fulfilled r] ! n) = is_rejected (promises s ! n)"
      if "n < length (promises s)" for n
      using that True by (cases "n = i") simp_all
    then show ?thesis unfolding list_ex_length by auto
  qed
  show ?thesis
  proof (cases "joined s")
    case Pending
    then show ?thesis using True len rej_iff assms(1)
      by (simp add: on_resolve_def state_inv_def joined_inv_def Let_def)
  next
    case (Fulfilled rs)
    then show ?thesis using assms(1) notall by (simp add: state_inv_def joined_inv_def)
  next
    case (Rejected e')
    then show ?thesis using True len rej_iff assms(1)
      by (simp add: on_resolve_def state_inv_def joined_inv_def Let_def)
  qed
qed

lemma uncaught_inv: "state_inv hosts s \<Longrightarrow> state_inv hosts (s\<lparr> uncaught := u \<rparr>)"
  by (simp add: state_inv_def joined_inv_def split: promise.splits)

lemma step_inv: "state_inv hosts s \<Longrightarrow> state_inv hosts (step P H hosts s ev)"
  by (cases ev)
     (auto simp: step_def on_reject_inv on_resolve_inv uncaught_inv split: sum.splits)

lemma run_inv: "state_inv hosts s \<Longrightarrow> state_inv hosts (foldl (step P H hosts) s evs)"
  by (induction evs arbitrary: s) (simp_all add: step_inv)

lemma fulfilled_values_all:
  "list_all is_fulfilled ps \<Longrightarrow>
     length (fulfilled_values ps) = length ps \<and>
     (\<forall>i<length ps. ps ! i = Fulfilled (fulfilled_values ps ! i))"
proof (induction ps)
  case Nil
  then show ?case by simp
next
  case (Cons p ps)
  then show ?case by (cases p) (auto simp: nth_Cons split: nat.splits)
qed

lemma all_fulfilled_not_rejected:
  "list_all is_fulfilled ps \<Longrightarrow> \<not> list_ex is_rejected ps"
proof (induction ps)
  case Nil
  then show ?case by simp
next
  case (Cons p ps)
  then show ?case by (cases p) auto
qed

lemma all_fulfilled_joined:
  assumes "state_inv hosts s" "list_all is_fulfilled (promises s)"
  shows "joined s = Fulfilled (fulfilled_values (promises s))"
  using assms all_fulfilled_not_rejected[OF assms(2)]
  by (cases "joined s") (simp_all add: state_inv_def joined_inv_def)


section \<open>Parsing the certificate\<close>

lemma get_prop_object: "v \<noteq> Undefined \<Longrightarrow> v \<noteq> Null \<Longrightarrow> \<exists>x. get_prop v k = Inr x"
  by (cases v) simp_all

lemma get_prop_absent: "map_of ps k = None \<Longrightarrow> get_prop (Obj ps) k = Inr Undefined"
  by simp

lemma get_prop_raw: "get_prop raw k = Inr s \<Longrightarrow> \<exists>x. get_prop raw k' = Inr x"
  by (cases raw) simp_all

lemma hydrate_host: "hydrateResultObject P clock H raw h = Inr r \<Longrightarrow> host r = h"
  by (auto simp: hydrateResultObject_def bindE_def split: sum.splits)

lemma parseDate_string: "string_or_absent v \<Longrightarrow> parseDate P v = Inr (new_Date (P v))"
  by (cases v) (simp_all add: parseDate_def bindE_def)

lemma parseDate_throws:
  "map_of ps ''toString'' = Some m \<Longrightarrow> parseDate P (Obj ps) = Inl TypeError"
  by (simp add: parseDate_def bindE_def)

lemma hydrate_ok:
  assumes "get_prop raw ''subject'' = Inr s" "s \<noteq> Undefined" "s \<noteq> Null"
      and "get_prop raw ''issuer'' = Inr i" "i \<noteq> Undefined" "i \<noteq> Null"
      and "get_prop raw ''valid_from'' = Inr vf" "string_or_absent vf"
      and "get_prop raw ''valid_to'' = Inr vt" "string_or_absent vt"
  shows "\<exists>org cn alt iorg icn.
           get_prop s ''O'' = Inr org \<and> get_prop s ''CN'' = Inr cn
         \<and> get_prop raw ''subjectaltname'' = Inr alt
         \<and> get_prop i ''O'' = Inr iorg \<and> get_prop i ''CN'' = Inr icn
         \<and> hydrateResultObject P clock H raw h =
             Inr \<lparr> host = h,
                   details = \<lparr> subject_org = org, subject_commonName = cn,
                               subject_altName = alt,
                               issuer_org = iorg, issuer_commonName = icn \<rparr>,
                   validFrom = new_Date (P vf),
                   validTo = new_Date (P vt),
                   expiry = getExpiry clock H (new_Date (P vt)) h \<rparr>"
proof -
  obtain org where 1: "get_prop s ''O'' = Inr org" using get_prop_object[OF assms(2,3)] by blast
  obtain cn where 2: "get_prop s ''CN'' = Inr cn" using get_prop_object[OF assms(2,3)] by blast
  obtain iorg where 3: "get_prop i ''O'' = Inr iorg" using get_prop_object[OF assms(5,6)] by blast
  obtain icn where 4: "get_prop i ''CN'' = Inr icn" using get_prop_object[OF assms(5,6)] by blast
  obtain alt where 5: "get_prop raw ''subjectaltname'' = Inr alt"
    using get_prop_raw[OF assms(1)] by blast
  show ?thesis
    using assms(1,4,7,9) 1 2 3 4 5 parseDate_string[OF assms(8)] parseDate_string[OF assms(10)]
    by (simp add: hydrateResultObject_def bindE_def)
qed

lemma hydrate_throws:
  "get_prop raw ''subject'' = Inr s \<Longrightarrow> s = Undefined \<or> s = Null \<Longrightarrow>
     hydrateResultObject P clock H raw h = Inl TypeError"
  by (auto simp: hydrateResultObject_def bindE_def)

text \<open>
  A date field that is an object with a \<open>toString\<close> property of its own makes
  \<open>Date.parse\<close>, and with it \<open>hydrateResultObject\<close>, throw a TypeError.
\<close>

lemma hydrate_date_throws:
  "hydrateResultObject P clock H
     (Obj [(''subject'', Obj []), (''issuer'', Obj []),
           (''valid_to'', Obj [(''toString'', Num (Fin 1)), (''valueOf'', Num (Fin 1))])]) h =
     Inl TypeError"
  by (simp add: hydrateResultObject_def bindE_def parseDate_def)

text \<open>
  C9, as the code has it. For every raw certificate whose \<open>subject\<close> and \<open>issuer\<close>
  properties hold a value other than \<open>undefined\<close> and \<open>null\<close>, and whose
  \<open>valid_from\<close> and \<open>valid_to\<close> are strings or absent, \<open>hydrateResultObject\<close>
  returns a result whose \<open>subject.org\<close>, \<open>subject.commonName\<close>,
  \<open>subject.altName\<close>, \<open>issuer.org\<close> and \<open>issuer.commonName\<close> are exactly what the
  reads \<open>raw.subject.O\<close>, \<open>raw.subject.CN\<close>, \<open>raw.subjectaltname\<close>,
  \<open>raw.issuer.O\<close> and \<open>raw.issuer.CN\<close> yield; each of these five that is absent
  comes out as \<open>undefined\<close>, and nothing is thrown.
\<close>

theorem hydrate_details:
  assumes "get_prop raw ''subject'' = Inr s" "s \<noteq> Undefined" "s \<noteq> Null"
      and "get_prop raw ''issuer'' = Inr i" "i \<noteq> Undefined" "i \<noteq> Null"
      and "get_prop raw ''valid_from'' = Inr vf" "string_or_absent vf"
      and "get_prop raw ''valid_to'' = Inr vt" "string_or_absent vt"
  shows "\<exists>r. hydrateResultObject P clock H raw h = Inr r
           \<and> get_prop s ''O'' = Inr (subject_org (details r))
           \<and> get_prop s ''CN'' = Inr (subject_commonName (details r))
           \<and> get_prop raw ''subjectaltname'' = Inr (subject_altName (details r))
           \<and> get_prop i ''O'' = Inr (issuer_org (details r))
           \<and> get_prop i ''CN'' = Inr (issuer_commonName (details r))
           \<and> (\<forall>ps. s = Obj ps \<and> map_of ps ''O'' = None \<longrightarrow> subject_org (details r) = Undefined)
           \<and> (\<forall>ps. s = Obj ps \<and> map_of ps ''CN'' = None \<longrightarrow>
                 subject_commonName (details r) = Undefined)
           \<and> (\<forall>ps. raw = Obj ps \<and> map_of ps ''subjectaltname'' = None \<longrightarrow>
                 subject_altName (details r) = Undefined)
           \<and> (\<forall>ps. i = Obj ps \<and> map_of ps ''O'' = None \<longrightarrow> issuer_org (details r) = Undefined)
           \<and> (\<forall>ps. i = Obj ps \<and> map_of ps ''CN'' = None \<longrightarrow>
                 issuer_commonName (details r) = Undefined)"
proof -
  from hydrate_ok[OF assms, of P clock H h]
  obtain org cn alt iorg icn where
    g: "get_prop s ''O'' = Inr org" "get_prop s ''CN'' = Inr cn"
       "get_prop raw ''subjectaltname'' = Inr alt"
       "get_prop i ''O'' = Inr iorg" "get_prop i ''CN'' = Inr icn"
    and r: "hydrateResultObject P clock H raw h =
             Inr \<lparr> host = h,
                   details = \<lparr> subject_org = org, subject_commonName = cn,
                               subject_altName = alt,
                               issuer_org = iorg, issuer_commonName = icn \<rparr>,
                   validFrom = new_Date (P vf),
                   validTo = new_Date (P vt),
                   expiry = getExpiry clock H (new_Date (P vt)) h \<rparr>"
    by blast
  show ?thesis using g by (auto simp: r)
qed

theorem hydrate_details_witness:
  "get_prop (Obj [(''subject'', Obj [(''CN'', Str ''Common name'')]),
                  (''issuer'', Obj [(''O'', Str ''Issuer org name'')])]) ''subject'' =
     Inr (Obj [(''CN'', Str ''Common name'')])
   \<and> Obj [(''CN'', Str ''Common name'')] \<noteq> Undefined
   \<and> Obj [(''CN'', Str ''Common name'')] \<noteq> Null
   \<and> get_prop (Obj [(''subject'', Obj [(''CN'', Str ''Common name'')]),
                  (''issuer'', Obj [(''O'', Str ''Issuer org name'')])]) ''issuer'' =
     Inr (Obj [(''O'', Str ''Issuer org name'')])
   \<and> Obj [(''O'', Str ''Issuer org name'')] \<noteq> Undefined
   \<and> Obj [(''O'', Str ''Issuer org name'')] \<noteq> Null
   \<and> get_prop (Obj [(''subject'', Obj [(''CN'', Str ''Common name'')]),
                  (''issuer'', Obj [(''O'', Str ''Issuer org name'')])]) ''valid_from'' = Inr Undefined
   \<and> get_prop (Obj [(''subject'', Obj [(''CN'', Str ''Common name'')]),
                  (''issuer'', Obj [(''O'', Str ''Issuer org name'')])]) ''valid_to'' = Inr Undefined
   \<and> string_or_absent Undefined
   \<and> (\<exists>r. hydrateResultObject stub_Date_parse 1577836800000 test_heap
            (Obj [(''subject'', Obj [(''CN'', Str ''Common name'')]),
                  (''issuer'', Obj [(''O'', Str ''Issuer org name'')])]) 0 = Inr r
          \<and> details r =
              \<lparr> subject_org = Undefined, subject_commonName = Str ''Common name'',
                subject_altName = Undefined,
                issuer_org = Str ''Issuer org name'', issuer_commonName = Undefined \<rparr>)"
proof -
  have s: "get_prop (Obj [(''subject'', Obj [(''CN'', Str ''Common name'')]),
                  (''issuer'', Obj [(''O'', Str ''Issuer org name'')])]) ''subject'' =
     Inr (Obj [(''CN'', Str ''Common name'')])" by simp
  have i: "get_prop (Obj [(''subject'', Obj [(''CN'', Str ''Common name'')]),
                  (''issuer'', Obj [(''O'', Str ''Issuer org name'')])]) ''issuer'' =
     Inr (Obj [(''O'', Str ''Issuer org name'')])" by simp
  have vf: "get_prop (Obj [(''subject'', Obj [(''CN'', Str ''Common name'')]),
                  (''issuer'', Obj [(''O'', Str ''Issuer org name'')])]) ''valid_from'' = Inr Undefined" by simp
  have vt: "get_prop (Obj [(''subject'', Obj [(''CN'', Str ''Common name'')]),
                  (''issuer'', Obj [(''O'', Str ''Issuer org name'')])]) ''valid_to'' = Inr Undefined" by simp
  from hydrate_details [OF s _ _ i _ _ vf _ vt, of stub_Date_parse 1577836800000 test_heap 0]
  obtain r where r: "hydrateResultObject stub_Date_parse 1577836800000 test_heap
            (Obj [(''subject'', Obj [(''CN'', Str ''Common name'')]),
                  (''issuer'', Obj [(''O'', Str ''Issuer org name'')])]) 0 = Inr r"
    and d: "get_prop (Obj [(''CN'', Str ''Common name'')]) ''O'' = Inr (subject_org (details r))"
       "get_prop (Obj [(''CN'', Str ''Common name'')]) ''CN'' = Inr (subject_commonName (details r))"
       "get_prop (Obj [(''subject'', Obj [(''CN'', Str ''Common name'')]),
                  (''issuer'', Obj [(''O'', Str ''Issuer org name'')])]) ''subjectaltname'' =
          Inr (subject_altName (details r))"
       "get_prop (Obj [(''O'', Str ''Issuer org name'')]) ''O'' = Inr (issuer_org (details r))"
       "get_prop (Obj [(''O'', Str ''Issuer org name'')]) ''CN'' =
          Inr (issuer_commonName (details r))"
    by auto
  have "details r =
              \<lparr> subject_org = Undefined, subject_commonName = Str ''Common name'',
                subject_altName = Undefined,
                issuer_org = Str ''Issuer org name'', issuer_commonName = Undefined \<rparr>"
    using d by (cases "details r") simp
  then show ?thesis using r by simp
qed

text \<open>
  A certificate object without a \<open>subject\<close> property: the read \<open>raw.subject.O\<close>
  throws a TypeError, although every other field is there.
\<close>

theorem hydrate_absent_subject_counterexample:
  "hydrateResultObject stub_Date_parse 1577836800000 test_heap
     (Obj [(''subjectaltname'', Str ''Alt name''),
           (''issuer'', Obj [(''O'', Str ''Issuer org name''),
                              (''CN'', Str ''Issuer common name'')]),
           (''valid_to'', Str ''Mar 1 00:00:00 2020 GMT''),
           (''valid_from'', Str ''Jan 1 00:00:00 2020 GMT'')]) 0 = Inl TypeError"
  by (simp add: hydrateResultObject_def bindE_def)

text \<open>
  C3, as the code has it. \<open>hydrateResultObject\<close> has no error of its own for
  validity dates that cannot be parsed: for every raw certificate whose \<open>subject\<close>
  and \<open>issuer\<close> properties hold a value other than \<open>undefined\<close> and \<open>null\<close>, and
  whose \<open>valid_from\<close> and \<open>valid_to\<close> are strings or absent, it returns a result,
  whether the date strings parse or not and whichever of \<open>O\<close>, \<open>CN\<close> and
  \<open>subjectaltname\<close> are absent. A date the parser cannot read gives an invalid date,
  and with an invalid \<open>validTo\<close> the expiry is \<open>days = NaN\<close>, \<open>milliseconds = NaN\<close>,
  \<open>isExpired = false\<close>, \<open>isInAlertWindow = false\<close>.
\<close>

theorem hydrate_dates:
  assumes "get_prop raw ''subject'' = Inr s" "s \<noteq> Undefined" "s \<noteq> Null"
      and "get_prop raw ''issuer'' = Inr i" "i \<noteq> Undefined" "i \<noteq> Null"
      and "get_prop raw ''valid_from'' = Inr vf" "string_or_absent vf"
      and "get_prop raw ''valid_to'' = Inr vt" "string_or_absent vt"
  shows "\<exists>r. hydrateResultObject P clock H raw h = Inr r
           \<and> validFrom r = new_Date (P vf) \<and> validTo r = new_Date (P vt)
           \<and> expiry r = getExpiry clock H (new_Date (P vt)) h
           \<and> (P vf = None \<longrightarrow> validFrom r = None)
           \<and> (P vt = None \<longrightarrow> validTo r = None
                \<and> expiry r = \<lparr> days = NaN, milliseconds = NaN,
                                isExpired = False, isInAlertWindow = False \<rparr>)"
proof -
  from hydrate_ok[OF assms, of P clock H h]
  obtain org cn alt iorg icn where
    r: "hydrateResultObject P clock H raw h =
             Inr \<lparr> host = h,
                   details = \<lparr> subject_org = org, subject_commonName = cn,
                               subject_altName = alt,
                               issuer_org = iorg, issuer_commonName = icn \<rparr>,
                   validFrom = new_Date (P vf),
                   validTo = new_Date (P vt),
                   expiry = getExpiry clock H (new_Date (P vt)) h \<rparr>"
    by blast
  show ?thesis
    by (auto simp: r new_Date_def getExpiry_invalid)
qed

theorem hydrate_dates_witness:
  "get_prop (stub_certificate ''not a date'' ''Mar 1 00:00:00 2020 GMT'') ''subject'' =
     Inr (Obj [(''O'', Str ''Org name''), (''CN'', Str ''Common name'')])
   \<and> Obj [(''O'', Str ''Org name''), (''CN'', Str ''Common name'')] \<noteq> Undefined
   \<and> Obj [(''O'', Str ''Org name''), (''CN'', Str ''Common name'')] \<noteq> Null
   \<and> get_prop (stub_certificate ''not a date'' ''Mar 1 00:00:00 2020 GMT'') ''issuer'' =
     Inr (Obj [(''O'', Str ''Issuer org name''), (''CN'', Str ''Issuer common name'')])
   \<and> Obj [(''O'', Str ''Issuer org name''), (''CN'', Str ''Issuer common name'')] \<noteq> Undefined
   \<and> Obj [(''O'', Str ''Issuer org name''), (''CN'', Str ''Issuer common name'')] \<noteq> Null
   \<and> get_prop (stub_certificate ''not a date'' ''Mar 1 00:00:00 2020 GMT'') ''valid_from'' = Inr (Str ''not a date'')
   \<and> string_or_absent (Str ''not a date'')
   \<and> get_prop (stub_certificate ''not a date'' ''Mar 1 00:00:00 2020 GMT'') ''valid_to'' =
     Inr (Str ''Mar 1 00:00:00 2020 GMT'')
   \<and> string_or_absent (Str ''Mar 1 00:00:00 2020 GMT'')
   \<and> (\<exists>r. hydrateResultObject stub_Date_parse 1577836800000 test_heap
            (stub_certificate ''not a date'' ''Mar 1 00:00:00 2020 GMT'') 0 = Inr r
          \<and> validFrom r = None \<and> validTo r = Some 1583020800000)"
proof -
  have s: "get_prop (stub_certificate ''not a date'' ''Mar 1 00:00:00 2020 GMT'') ''subject'' =
     Inr (Obj [(''O'', Str ''Org name''), (''CN'', Str ''Common name'')])"
    by (simp add: stub_certificate_def)
  have i: "get_prop (stub_certificate ''not a date'' ''Mar 1 00:00:00 2020 GMT'') ''issuer'' =
     Inr (Obj [(''O'', Str ''Issuer org name''), (''CN'', Str ''Issuer common name'')])"
    by (simp add: stub_certificate_def)
  have vf: "get_prop (stub_certificate ''not a date'' ''Mar 1 00:00:00 2020 GMT'') ''valid_from'' = Inr (Str ''not a date'')"
    by (simp add: stub_certificate_def)
  have vt: "get_prop (stub_certificate ''not a date'' ''Mar 1 00:00:00 2020 GMT'') ''valid_to'' =
     Inr (Str ''Mar 1 00:00:00 2020 GMT'')"
    by (simp add: stub_certificate_def)
  from hydrate_dates [OF s _ _ i _ _ vf _ vt, of stub_Date_parse 1577836800000 test_heap 0]
  obtain r where
    r: "hydrateResultObject stub_Date_parse 1577836800000 test_heap
            (stub_certificate ''not a date'' ''Mar 1 00:00:00 2020 GMT'') 0 = Inr r"
    and v: "validFrom r = new_Date (stub_Date_parse (Str ''not a date''))"
           "validTo r = new_Date (stub_Date_parse (Str ''Mar 1 00:00:00 2020 GMT''))"
    by auto
  have "validFrom r = None" "validTo r = Some 1583020800000"
    using v by (simp_all add: stub_Date_parse_def new_Date_def)
  then show ?thesis using r s i vf vt by simp
qed

text \<open>
  The stub's certificate with two date strings that do not parse: the result is a
  result object, with invalid dates, not an error.
\<close>

theorem hydrate_unparseable_counterexample:
  "hydrateResultObject stub_Date_parse 1577836800000 test_heap
     (stub_certificate ''not a date'' ''not a date'') 0 =
     Inr \<lparr> host = 0,
           details = \<lparr> subject_org = Str ''Org name'', subject_commonName = Str ''Common name'',
                       subject_altName = Str ''Alt name'',
                       issuer_org = Str ''Issuer org name'',
                       issuer_commonName = Str ''Issuer common name'' \<rparr>,
           validFrom = None, validTo = None,
           expiry = \<lparr> days = NaN, milliseconds = NaN,
                      isExpired = False, isInAlertWindow = False \<rparr> \<rparr>"
  by (simp add: hydrateResultObject_def bindE_def stub_certificate_def parseDate_def
        stub_Date_parse_def new_Date_def getExpiry_invalid)

section \<open>The run of checkHosts\<close>

lemma on_reject_length: "length (promises (on_reject i e s)) = length (promises s)"
  by (simp add: on_reject_def)

lemma on_resolve_length: "length (promises (on_resolve i r s)) = length (promises s)"
  by (simp add: on_resolve_def Let_def)

lemma step_length: "length (promises (step P H hosts s ev)) = length (promises s)"
  by (cases ev) (simp_all add: step_def on_reject_length on_resolve_length split: sum.splits)

lemma step_fulfilled:
  assumes "promises (step P H hosts s ev) ! i = Fulfilled r"
      and "length (promises s) = length hosts" "i < length hosts"
  shows "promises s ! i = Fulfilled r \<or>
         (\<exists>raw clock. ev = Response i raw clock \<and>
            hydrateResultObject P clock H raw (hosts ! i) = Inr r)"
proof (cases ev)
  case (Response j raw clock)
  then show ?thesis using assms
    by (auto simp: step_def on_resolve_def Let_def nth_list_update
             split: if_splits sum.splits)
next
  case (Error j e)
  then show ?thesis using assms
    by (auto simp: step_def on_reject_def nth_list_update split: if_splits)
qed

lemma run_fulfilled:
  assumes "promises (foldl (step P H hosts) s evs) ! i = Fulfilled r"
      and "length (promises s) = length hosts" "i < length hosts"
  shows "promises s ! i = Fulfilled r \<or>
         (\<exists>raw clock. Response i raw clock \<in> set evs \<and>
            hydrateResultObject P clock H raw (hosts ! i) = Inr r)"
  using assms
proof (induction evs arbitrary: s)
  case Nil
  then show ?case by simp
next
  case (Cons ev evs)
  have "promises (step P H hosts s ev) ! i = Fulfilled r \<or>
         (\<exists>raw clock. Response i raw clock \<in> set evs \<and>
            hydrateResultObject P clock H raw (hosts ! i) = Inr r)"
    using Cons.IH[of "step P H hosts s ev"] Cons.prems by (simp add: step_length)
  then show ?case
    using step_fulfilled[of P H hosts s ev i r] Cons.prems(2,3) by auto
qed

lemma initial_pending: "i < n \<Longrightarrow> promises (initial_state n) ! i = Pending"
  by (simp add: initial_state_def)

lemma step_rejected_stays: "joined s = Rejected e \<Longrightarrow> joined (step P H hosts s ev) = Rejected e"
  by (cases ev) (simp_all add: step_def on_reject_def on_resolve_def Let_def split: sum.splits)

lemma run_rejected_stays:
  "joined s = Rejected e \<Longrightarrow> joined (foldl (step P H hosts) s evs) = Rejected e"
  by (induction evs arbitrary: s) (simp_all add: step_rejected_stays)

lemma step_first_rejection:
  assumes "state_inv hosts s" "\<not> list_ex is_rejected (promises s)"
      and "list_ex is_rejected (promises (step P H hosts s ev))"
  shows "\<exists>i e. ev = Error i e \<and> i < length hosts
           \<and> promises (step P H hosts s ev) ! i = Rejected e
           \<and> joined (step P H hosts s ev) = Rejected e"
proof (cases ev)
  case (Response j raw clock)
  have "\<not> list_ex is_rejected (promises (on_resolve j r s))" for r
  proof (cases "promises s ! j = Pending")
    case True
    have "is_rejected ((promises s)[j := Fulfilled r] ! n) = is_rejected (promises s ! n)"
      if "n < length (promises s)" for n
      using that True by (cases "n = j") simp_all
    then show ?thesis using assms(2) True
      unfolding list_ex_length by (auto simp: on_resolve_def Let_def)
  next
    case False
    then show ?thesis using assms(2) by (simp add: on_resolve_def)
  qed
  then show ?thesis using assms(2,3) Response
    by (auto simp: step_def split: if_splits sum.splits)
next
  case (Error j e)
  have changed: "uncaught s = None" "j < length hosts" "promises s ! j = Pending"
    using assms(2,3) Error by (auto simp: step_def on_reject_def split: if_splits)
  have len: "length (promises s) = length hosts" using assms(1) by (simp add: state_inv_def)
  have notall: "\<not> list_all is_fulfilled (promises s)"
    unfolding list_all_length using changed len by (auto intro!: exI[of _ j])
  have "joined s = Pending"
    using assms(1,2) notall by (cases "joined s") (simp_all add: state_inv_def joined_inv_def)
  then show ?thesis using Error changed len
    by (simp add: step_def on_reject_def)
qed

lemma run_first_rejection:
  assumes "state_inv hosts s" "\<not> list_ex is_rejected (promises s)"
      and "list_ex is_rejected (promises (foldl (step P H hosts) s evs))"
  shows "\<exists>evs1 i e evs2. evs = evs1 @ Error i e # evs2 \<and> i < length hosts
           \<and> \<not> list_ex is_rejected (promises (foldl (step P H hosts) s evs1))
           \<and> promises (foldl (step P H hosts) s (evs1 @ [Error i e])) ! i = Rejected e
           \<and> joined (foldl (step P H hosts) s evs) = Rejected e"
  using assms
proof (induction evs arbitrary: s)
  case Nil
  then show ?case by simp
next
  case (Cons ev evs)
  show ?case
  proof (cases "list_ex is_rejected (promises (step P H hosts s ev))")
    case True
    from step_first_rejection[OF Cons.prems(1,2) True]
    obtain i e where ev: "ev = Error i e" "i < length hosts"
      "promises (step P H hosts s ev) ! i = Rejected e"
      "joined (step P H hosts s ev) = Rejected e" by blast
    have "joined (foldl (step P H hosts) s (ev # evs)) = Rejected e"
      using run_rejected_stays[OF ev(4)] by simp
    then show ?thesis using ev Cons.prems(2)
      by (intro exI[of _ "[]"] exI[of _ i] exI[of _ e] exI[of _ evs]) simp
  next
    case False
    from Cons.IH[OF step_inv[OF Cons.prems(1)] False] Cons.prems(3)
    obtain evs1 i e evs2 where
      d: "evs = evs1 @ Error i e # evs2" "i < length hosts"
         "\<not> list_ex is_rejected (promises (foldl (step P H hosts) (step P H hosts s ev) evs1))"
         "promises (foldl (step P H hosts) (step P H hosts s ev) (evs1 @ [Error i e])) ! i = Rejected e"
         "joined (foldl (step P H hosts) (step P H hosts s ev) evs) = Rejected e"
      by auto
    then show ?thesis
      by (intro exI[of _ "ev # evs1"] exI[of _ i] exI[of _ e] exI[of _ evs2]) simp
  qed
qed

lemma initial_not_rejected: "\<not> list_ex is_rejected (promises (initial_state n))"
  by (simp add: initial_state_def list_ex_iff)

lemma checkHosts_inv: "state_inv hosts (snd (checkHosts P c hosts H evs))"
  by (simp add: checkHosts_state run_inv initial_state_inv)

lemma joined_results:
  assumes "joined (snd (checkHosts P c hosts H evs)) = Fulfilled rs"
  shows "length rs = length hosts \<and>
         (\<forall>i<length hosts. promises (snd (checkHosts P c hosts H evs)) ! i = Fulfilled (rs ! i))"
proof -
  let ?s = "snd (checkHosts P c hosts H evs)"
  have inv: "state_inv hosts ?s" by (rule checkHosts_inv)
  then have "list_all is_fulfilled (promises ?s)" "rs = fulfilled_values (promises ?s)"
    and len: "length (promises ?s) = length hosts"
    using assms by (simp_all add: state_inv_def joined_inv_def)
  then show ?thesis using fulfilled_values_all[of "promises ?s"] by simp
qed

lemma promise_origin:
  assumes "promises (snd (checkHosts P c hosts H evs)) ! i = Fulfilled r" "i < length hosts"
  shows "host r = hosts ! i \<and>
         (\<exists>raw clock. Response i raw clock \<in> set evs \<and>
            hydrateResultObject P clock (fst (checkHosts P c hosts H evs)) raw (hosts ! i) = Inr r)"
proof -
  let ?H = "fst (checkHosts P c hosts H evs)"
  have "promises (foldl (step P ?H hosts) (initial_state (length hosts)) evs) ! i = Fulfilled r"
    using assms(1) by (simp add: checkHosts_state)
  from run_fulfilled[OF this _ assms(2)]
  have "\<exists>raw clock. Response i raw clock \<in> set evs \<and>
            hydrateResultObject P clock ?H raw (hosts ! i) = Inr r"
    using assms(2) by (simp add: initial_state_def)
  then show ?thesis using hydrate_host by blast
qed

lemma test_run_heap:
  "fst (checkHosts P test_config [0, Suc 0] test_heap evs) 0 =
     \<lparr> hostname = ''www.google.com'', port = Some (Fin 1234),
       alertWindowDays = Some (Fin 5), userAgent = Some ''Google user agent'',
       headers = Some [(''User-Agent'', ''Google user agent'')], method = Some ''GET'' \<rparr>"
  "fst (checkHosts P test_config [0, Suc 0] test_heap evs) (Suc 0) =
     \<lparr> hostname = ''www.facebook.com'', port = Some (Fin 443),
       alertWindowDays = Some (Fin 30), userAgent = None,
       headers = Some [(''User-Agent'', ''SSL Certificate Expiry Checker 0.1.0'')],
       method = Some ''GET'' \<rparr>"
  by (simp_all add: checkHosts_heap resolved_def test_heap_def test_config_def constructor_def
        assign_key_def or_num_def or_str_def)

lemma test_hydrate:
  "alertWindowDays (H h) = Some (Fin w) \<Longrightarrow>
   hydrateResultObject stub_Date_parse 1577836800000 H test_certificate h =
     Inr \<lparr> host = h,
           details = \<lparr> subject_org = Str ''Org name'', subject_commonName = Str ''Common name'',
                       subject_altName = Str ''Alt name'',
                       issuer_org = Str ''Issuer org name'',
                       issuer_commonName = Str ''Issuer common name'' \<rparr>,
           validFrom = Some 1577836800000, validTo = Some 1583020800000,
           expiry = \<lparr> days = Fin 60, milliseconds = Fin 5184000000,
                      isExpired = False, isInAlertWindow = (60 \<le> w) \<rparr> \<rparr>"
  by (simp add: hydrateResultObject_def bindE_def test_certificate_def stub_certificate_def
        parseDate_def stub_Date_parse_def new_Date_def getExpiry_valid round_def ToNumber_opt_def)

lemma test_hydrate_0:
  "hydrateResultObject stub_Date_parse 1577836800000
     (fst (checkHosts P test_config [0, Suc 0] test_heap evs)) test_certificate 0 = Inr (test_result 0)"
  by (simp add: test_hydrate[where w = 5] test_run_heap test_result_def)

lemma test_hydrate_1:
  "hydrateResultObject stub_Date_parse 1577836800000
     (fst (checkHosts P test_config [0, Suc 0] test_heap evs)) test_certificate (Suc 0) =
     Inr (test_result (Suc 0))"
  by (simp add: test_hydrate[where w = 30] test_run_heap test_result_def)

lemma test_run_late_first:
  "snd (checkHosts stub_Date_parse test_config [0, Suc 0] test_heap
          [Response (Suc 0) test_certificate 1577836800000,
           Response 0 test_certificate 1577836800000]) =
     \<lparr> promises = [Fulfilled (test_result 0), Fulfilled (test_result (Suc 0))],
       joined = Fulfilled [test_result 0, test_result (Suc 0)],
       uncaught = None \<rparr>"
  by (simp add: checkHosts_state step_def test_hydrate_0 test_hydrate_1 initial_state_def
     on_resolve_def Let_def numeral_2_eq_2)

lemma test_run_error:
  "snd (checkHosts stub_Date_parse test_config [0, Suc 0] test_heap
          [Response 0 test_certificate 1577836800000,
           Error (Suc 0) (Str ''it failed yo''),
           Response (Suc 0) test_certificate 1577836800000]) =
     \<lparr> promises = [Fulfilled (test_result 0), Rejected (Str ''it failed yo'')],
       joined = Rejected (Str ''it failed yo''),
       uncaught = None \<rparr>"
  by (simp add: checkHosts_state step_def test_hydrate_0 test_hydrate_1 initial_state_def
     on_resolve_def on_reject_def Let_def numeral_2_eq_2)

text \<open>
  C5. Whatever the order in which the platform delivers the events: when the promise
  of every host is fulfilled, the promise of \<open>checkHosts\<close> is fulfilled with a list
  as long as the list of hosts, whose element \<open>i\<close> is the value of the promise of
  \<open>hosts[i]\<close>: it has \<open>hosts[i]\<close> as its \<open>host\<close>, and it is the result hydrated from
  a response of request \<open>i\<close>.
\<close>

theorem checkHosts_input_order:
  assumes "list_all is_fulfilled (promises (snd (checkHosts P c hosts H evs)))"
  shows "\<exists>rs. joined (snd (checkHosts P c hosts H evs)) = Fulfilled rs
           \<and> length rs = length hosts
           \<and> (\<forall>i<length hosts.
                 host (rs ! i) = hosts ! i
               \<and> promises (snd (checkHosts P c hosts H evs)) ! i = Fulfilled (rs ! i)
               \<and> (\<exists>raw clock. Response i raw clock \<in> set evs
                    \<and> hydrateResultObject P clock (fst (checkHosts P c hosts H evs)) raw
                          (hosts ! i) = Inr (rs ! i)))"
proof -
  let ?s = "snd (checkHosts P c hosts H evs)"
  have j: "joined ?s = Fulfilled (fulfilled_values (promises ?s))"
    using all_fulfilled_joined[OF checkHosts_inv assms] .
  show ?thesis
    using joined_results[OF j] promise_origin[of P c hosts H evs] j by auto
qed

theorem checkHosts_input_order_witness:
  "list_all is_fulfilled (promises (snd (checkHosts stub_Date_parse test_config [0, 1] test_heap
          [Response 1 test_certificate 1577836800000,
           Response 0 test_certificate 1577836800000])))
   \<and> joined (snd (checkHosts stub_Date_parse test_config [0, 1] test_heap
          [Response 1 test_certificate 1577836800000,
           Response 0 test_certificate 1577836800000])) =
       Fulfilled [test_result 0, test_result 1]
   \<and> host (test_result 0) = [0, 1] ! 0 \<and> host (test_result 1) = [0, 1] ! 1"
proof -
  have h: "list_all is_fulfilled (promises (snd (checkHosts stub_Date_parse test_config [0, 1]
          test_heap [Response 1 test_certificate 1577836800000,
                     Response 0 test_certificate 1577836800000])))"
    by (simp add: test_run_late_first)
  from checkHosts_input_order [OF h] show ?thesis
    using h by (auto simp: test_run_late_first)
qed

text \<open>
  Conversely: a promise of a host is rejected only by an \<open>error\<close> event, and the first
  such event gives the promise of \<open>checkHosts\<close> its reason.
\<close>

lemma rejected_promise_first_error:
  assumes "list_ex is_rejected (promises (snd (checkHosts P c hosts H evs)))"
  shows "\<exists>evs1 i e evs2. evs = evs1 @ Error i e # evs2 \<and> i < length hosts
           \<and> \<not> list_ex is_rejected (promises (snd (checkHosts P c hosts H evs1)))
           \<and> promises (snd (checkHosts P c hosts H (evs1 @ [Error i e]))) ! i = Rejected e
           \<and> joined (snd (checkHosts P c hosts H evs)) = Rejected e
           \<and> (\<forall>rs. joined (snd (checkHosts P c hosts H evs)) \<noteq> Fulfilled rs)"
proof -
  have heap: "fst (checkHosts P c hosts H es) = fst (checkHosts P c hosts H evs)" for es
    by (simp add: checkHosts_heap)
  let ?H = "fst (checkHosts P c hosts H evs)"
  have st: "snd (checkHosts P c hosts H es) =
              foldl (step P ?H hosts) (initial_state (length hosts)) es" for es
    using checkHosts_state[of P c hosts H es] heap[of es] by simp
  from run_first_rejection[where hosts = hosts and P = P and H = "?H" and evs = evs
         and s = "initial_state (length hosts)", OF initial_state_inv initial_not_rejected] assms
  show ?thesis unfolding st by fastforce
qed

lemma test_run_first:
  "snd (checkHosts stub_Date_parse test_config [0, Suc 0] test_heap
          [Response 0 test_certificate 1577836800000]) =
     \<lparr> promises = [Fulfilled (test_result 0), Pending],
       joined = Pending,
       uncaught = None \<rparr>"
  by (simp add: checkHosts_state step_def test_hydrate_0 initial_state_def
     on_resolve_def Let_def numeral_2_eq_2)

lemma hydrate_unparseable:
  "hydrateResultObject stub_Date_parse clock H (stub_certificate ''not a date'' ''not a date'') h =
     Inr \<lparr> host = h,
           details = \<lparr> subject_org = Str ''Org name'', subject_commonName = Str ''Common name'',
                       subject_altName = Str ''Alt name'',
                       issuer_org = Str ''Issuer org name'',
                       issuer_commonName = Str ''Issuer common name'' \<rparr>,
           validFrom = None, validTo = None,
           expiry = \<lparr> days = NaN, milliseconds = NaN,
                      isExpired = False, isInAlertWindow = False \<rparr> \<rparr>"
  by (simp add: hydrateResultObject_def bindE_def stub_certificate_def parseDate_def
        stub_Date_parse_def new_Date_def getExpiry_invalid)

text \<open>
  C6, as the code has it. When the request of a host emits \<open>error\<close> while the promise
  of that host is pending and no exception has escaped a callback, the promise of
  \<open>checkHosts\<close> is rejected, whatever happens afterwards and whatever the other
  hosts' promises became: with the reason of that event when no promise of a host
  was rejected before it, and with the reason of the earlier rejection otherwise. It
  is never fulfilled with a list. This is the only failure of a host the code has: a
  certificate whose dates cannot be parsed fulfils the promise of its host, and an
  exception of the response callback rejects nothing.
\<close>

theorem checkHosts_error_rejects:
  assumes "i < length hosts"
      and "uncaught (snd (checkHosts P c hosts H evs1)) = None"
      and "promises (snd (checkHosts P c hosts H evs1)) ! i = Pending"
  shows "promises (snd (checkHosts P c hosts H (evs1 @ [Error i e]))) ! i = Rejected e
       \<and> (\<exists>e'. joined (snd (checkHosts P c hosts H (evs1 @ Error i e # evs2))) = Rejected e'
              \<and> (\<not> list_ex is_rejected (promises (snd (checkHosts P c hosts H evs1)))
                   \<longrightarrow> e' = e))
       \<and> (\<forall>rs. joined (snd (checkHosts P c hosts H (evs1 @ Error i e # evs2))) \<noteq> Fulfilled rs)"
proof -
  let ?H = "fst (checkHosts P c hosts H evs1)"
  have heap: "fst (checkHosts P c hosts H es) = ?H" for es
    by (simp add: checkHosts_heap)
  have st: "snd (checkHosts P c hosts H es) =
              foldl (step P ?H hosts) (initial_state (length hosts)) es" for es
    using checkHosts_state[of P c hosts H es] heap[of es] by simp
  define s1 where "s1 = foldl (step P ?H hosts) (initial_state (length hosts)) evs1"
  have inv: "state_inv hosts s1"
    unfolding s1_def by (rule run_inv[OF initial_state_inv])
  have u: "uncaught s1 = None" and p: "promises s1 ! i = Pending"
    using assms(2,3) unfolding st s1_def by simp_all
  have len: "length (promises s1) = length hosts" using inv by (simp add: state_inv_def)
  have notall: "\<not> list_all is_fulfilled (promises s1)"
    unfolding list_all_length using p assms(1) len by (auto intro!: exI[of _ i])
  have s2: "step P ?H hosts s1 (Error i e) = on_reject i e s1"
    using u assms(1) by (simp add: step_def)
  have pr: "promises (on_reject i e s1) ! i = Rejected e"
    using p assms(1) len by (simp add: on_reject_def)
  have j: "\<exists>e'. joined (on_reject i e s1) = Rejected e'
             \<and> (\<not> list_ex is_rejected (promises s1) \<longrightarrow> e' = e)"
  proof (cases "joined s1")
    case Pending
    then show ?thesis using p by (simp add: on_reject_def)
  next
    case (Fulfilled rs)
    then show ?thesis using inv notall by (simp add: state_inv_def joined_inv_def)
  next
    case (Rejected e')
    then show ?thesis using inv p by (simp add: on_reject_def state_inv_def joined_inv_def)
  qed
  then obtain e' where e': "joined (on_reject i e s1) = Rejected e'"
    "\<not> list_ex is_rejected (promises s1) \<longrightarrow> e' = e" by blast
  have fin: "joined (foldl (step P ?H hosts) (initial_state (length hosts))
               (evs1 @ Error i e # evs2)) = Rejected e'"
    using run_rejected_stays[OF e'(1)] by (simp add: s1_def[symmetric] s2)
  show ?thesis
    unfolding st using fin e'(2) pr by (simp add: s1_def[symmetric] s2)
qed

theorem checkHosts_error_rejects_witness:
  "(1::nat) < length [0::nat, 1]
   \<and> uncaught (snd (checkHosts stub_Date_parse test_config [0, 1] test_heap
          [Response 0 test_certificate 1577836800000])) = None
   \<and> promises (snd (checkHosts stub_Date_parse test_config [0, 1] test_heap
          [Response 0 test_certificate 1577836800000])) ! 1 = Pending
   \<and> promises (snd (checkHosts stub_Date_parse test_config [0, 1] test_heap
          [Response 0 test_certificate 1577836800000,
           Error 1 (Str ''it failed yo''),
           Response 1 test_certificate 1577836800000])) ! 0 = Fulfilled (test_result 0)
   \<and> joined (snd (checkHosts stub_Date_parse test_config [0, 1] test_heap
          [Response 0 test_certificate 1577836800000,
           Error 1 (Str ''it failed yo''),
           Response 1 test_certificate 1577836800000])) = Rejected (Str ''it failed yo'')"
proof -
  have u: "uncaught (snd (checkHosts stub_Date_parse test_config [0, 1] test_heap
          [Response 0 test_certificate 1577836800000])) = None"
    and p: "promises (snd (checkHosts stub_Date_parse test_config [0, 1] test_heap
          [Response 0 test_certificate 1577836800000])) ! 1 = Pending"
    and n: "\<not> list_ex is_rejected (promises (snd (checkHosts stub_Date_parse test_config [0, 1]
          test_heap [Response 0 test_certificate 1577836800000])))"
    by (simp_all add: test_run_first)
  have l: "(1::nat) < length [0::nat, 1]" by simp
  from checkHosts_error_rejects [OF l u p, of "Str ''it failed yo''"
         "[Response 1 test_certificate 1577836800000]"] n
  have "joined (snd (checkHosts stub_Date_parse test_config [0, 1] test_heap
          ([Response 0 test_certificate 1577836800000] @
           Error 1 (Str ''it failed yo'') # [Response 1 test_certificate 1577836800000]))) =
        Rejected (Str ''it failed yo'')"
    by auto
  then show ?thesis using u p by (simp add: test_run_error)
qed

text \<open>
  A host whose certificate has validity dates that cannot be parsed: its check does
  not fail, and the call is fulfilled with a result whose dates are invalid.
\<close>

theorem checkHosts_malformed_counterexample:
  "joined (snd (checkHosts stub_Date_parse test_config [0] test_heap
          [Response 0 (stub_certificate ''not a date'' ''not a date'') 1577836800000])) =
     Fulfilled [\<lparr> host = 0,
           details = \<lparr> subject_org = Str ''Org name'', subject_commonName = Str ''Common name'',
                       subject_altName = Str ''Alt name'',
                       issuer_org = Str ''Issuer org name'',
                       issuer_commonName = Str ''Issuer common name'' \<rparr>,
           validFrom = None, validTo = None,
           expiry = \<lparr> days = NaN, milliseconds = NaN,
                      isExpired = False, isInAlertWindow = False \<rparr> \<rparr>]"
  by (simp add: checkHosts_state step_def hydrate_unparseable initial_state_def
     on_resolve_def Let_def)

text \<open>
  C8. For every configuration and every host of the list, after resolution and the
  start of the request the host object has \<open>port\<close> and \<open>alertWindowDays\<close> set, a
  \<open>headers\<close> object with a \<open>User-Agent\<close> entry, and \<open>method\<close> equal to \<open>GET\<close>;
  its \<open>hostname\<close> is the caller's.
\<close>

theorem resolved_host_populated:
  assumes "h \<in> set hosts"
  shows "hostname (fst (checkHosts P c hosts H evs) h) = hostname (H h)
       \<and> (\<exists>p. port (fst (checkHosts P c hosts H evs) h) = Some p)
       \<and> (\<exists>w. alertWindowDays (fst (checkHosts P c hosts H evs) h) = Some w)
       \<and> (\<exists>hd ua. headers (fst (checkHosts P c hosts H evs) h) = Some hd
              \<and> map_of hd ''User-Agent'' = Some ua)
       \<and> method (fst (checkHosts P c hosts H evs) h) = Some ''GET''"
  using assms by (simp add: checkHosts_heap resolved_def)

theorem resolved_host_populated_witness:
  "(1::nat) \<in> set [0, 1]
   \<and> fst (checkHosts stub_Date_parse test_config [0, 1] test_heap []) 1 =
     \<lparr> hostname = ''www.facebook.com'', port = Some (Fin 443),
       alertWindowDays = Some (Fin 30), userAgent = None,
       headers = Some [(''User-Agent'', ''SSL Certificate Expiry Checker 0.1.0'')],
       method = Some ''GET'' \<rparr>"
  using resolved_host_populated [of 1 "[0, 1]" stub_Date_parse test_config test_heap "[]"]
  by (simp add: test_run_heap)

text \<open>
  C10. \<open>buildHostConfig\<close> returns the very references it was given, and after a call
  of \<open>checkHosts\<close> the object at each of them, the caller's own, carries the resolved
  \<open>port\<close>, \<open>alertWindowDays\<close> and \<open>headers\<close> and the \<open>method\<close>; the \<open>host\<close> of the
  result at index \<open>i\<close> is the reference \<open>hosts[i]\<close> itself; no object outside the
  list is changed.
\<close>

theorem checkHosts_in_place:
  assumes "h \<in> set hosts"
  shows "fst (buildHostConfig c hosts H) = hosts
       \<and> fst (checkHosts P c hosts H evs) h =
           (H h)\<lparr> port := Some (or_num (port (H h)) (defaultPort c)),
                  alertWindowDays :=
                    Some (or_num (alertWindowDays (H h)) (defaultAlertWindowDays c)),
                  headers := Some [(''User-Agent'',
                    or_str (host_obj.userAgent (H h)) (config.userAgent c))],
                  method := Some ''GET'' \<rparr>
       \<and> (\<forall>rs i. joined (snd (checkHosts P c hosts H evs)) = Fulfilled rs \<and> i < length hosts
             \<longrightarrow> host (rs ! i) = hosts ! i)
       \<and> (\<forall>a. a \<notin> set hosts \<longrightarrow> fst (checkHosts P c hosts H evs) a = H a)"
proof -
  have "host (rs ! i) = hosts ! i"
    if "joined (snd (checkHosts P c hosts H evs)) = Fulfilled rs" "i < length hosts" for rs i
    using joined_results[OF that(1)] promise_origin[of P c hosts H evs i "rs ! i"] that(2)
    by simp
  then show ?thesis using assms
    by (simp add: buildHostConfig_eq checkHosts_heap resolved_def)
qed

theorem checkHosts_in_place_witness:
  "(0::nat) \<in> set [0, 1]
   \<and> fst (checkHosts stub_Date_parse test_config [0, 1] test_heap
          [Response 1 test_certificate 1577836800000,
           Response 0 test_certificate 1577836800000]) 0 =
     \<lparr> hostname = ''www.google.com'', port = Some (Fin 1234),
       alertWindowDays = Some (Fin 5), userAgent = Some ''Google user agent'',
       headers = Some [(''User-Agent'', ''Google user agent'')], method = Some ''GET'' \<rparr>
   \<and> fst (checkHosts stub_Date_parse test_config [0, 1] test_heap
          [Response 1 test_certificate 1577836800000,
           Response 0 test_certificate 1577836800000]) 2 = test_heap 2
   \<and> host (test_result 0) = 0"
  using checkHosts_in_place [of 0 "[0, 1]" test_config test_heap stub_Date_parse
          "[Response 1 test_certificate 1577836800000,
            Response 0 test_certificate 1577836800000]"]
  by (simp add: test_run_heap test_result_def)


end
